theory Spec2Isabelle
  imports Main "HOL-Library.Sublist"
begin

section \<open>Python strings\<close>

text \<open>
  A Python \<open>str\<close> is modelled as a \<open>string\<close>; one \<open>char\<close> stands for one character
  (code points 0 to 255). The operations below are the ones \<open>scrapperIptv.py\<close> calls.
\<close>

datatype error = ValueError | TypeError | AttributeError

text \<open>\<open>str.isspace\<close> on one character: the white space that \<open>str.strip()\<close> removes.\<close>

definition isspace :: "char \<Rightarrow> bool" where
  "isspace c = (c \<in> set [CHR 0x09, CHR 0x0A, CHR 0x0B, CHR 0x0C, CHR 0x0D,
                         CHR 0x1C, CHR 0x1D, CHR 0x1E, CHR 0x1F, CHR 0x20,
                         CHR 0x85, CHR 0xA0])"

text \<open>The regular expression class \<open>\d\<close>.\<close>

definition isdigit :: "char \<Rightarrow> bool" where
  "isdigit c = (c \<in> set ''0123456789'')"

definition strip :: "string \<Rightarrow> string" where
  "strip s = rev (dropWhile isspace (rev (dropWhile isspace s)))"

text \<open>\<open>s.find(sub)\<close>, counting from position \<open>i\<close> of the original string.\<close>

fun find_from :: "string \<Rightarrow> string \<Rightarrow> nat \<Rightarrow> nat option" where
  "find_from sub [] i = (if sub = [] then Some i else None)"
| "find_from sub (c # cs) i =
     (if prefix sub (c # cs) then Some i else find_from sub cs (Suc i))"

text \<open>\<open>s.index(sub)\<close>: the first position of \<open>sub\<close>, or \<open>ValueError\<close>.\<close>

definition index :: "string \<Rightarrow> string \<Rightarrow> error + nat" where
  "index s sub = (case find_from sub s 0 of None \<Rightarrow> Inl ValueError | Some i \<Rightarrow> Inr i)"

text \<open>
  \<open>s.replace(old, '')\<close>: the occurrences of \<open>old\<close> are removed from left to right,
  without overlap; an empty \<open>old\<close> changes nothing. \<open>k\<close> counts the characters of the
  occurrence being removed that are still to be dropped.
\<close>

fun remove_from :: "string \<Rightarrow> nat \<Rightarrow> string \<Rightarrow> string" where
  "remove_from old k [] = []"
| "remove_from old (Suc k) (c # cs) = remove_from old k cs"
| "remove_from old 0 (c # cs) =
     (if old \<noteq> [] \<and> prefix old (c # cs) then remove_from old (length old - 1) cs
      else c # remove_from old 0 cs)"

definition replace_empty :: "string \<Rightarrow> string \<Rightarrow> string" where
  "replace_empty s old = remove_from old 0 s"

text \<open>\<open>s[a:b]\<close> for integers \<open>a\<close> and \<open>b\<close>: a negative bound counts from the end.\<close>

definition slice :: "string \<Rightarrow> int \<Rightarrow> int \<Rightarrow> string" where
  "slice s a b =
     (let n = int (length s);
          lo = (if a < 0 then max (a + n) 0 else min a n);
          hi = (if b < 0 then max (b + n) 0 else min b n)
      in take (nat (hi - lo)) (drop (nat lo) s))"

text \<open>
  \<open>re.compile(r'\d{2}:\d{2}').search(s)\<close>: the leftmost two digits, colon, two digits;
  the result is \<open>match.group(0)\<close>.
\<close>

fun time_pattern_search :: "string \<Rightarrow> string option" where
  "time_pattern_search (a # b # c # d # e # rest) =
     (if isdigit a \<and> isdigit b \<and> c = CHR '':'' \<and> isdigit d \<and> isdigit e
      then Some [a, b, c, d, e]
      else time_pattern_search (b # c # d # e # rest))"
| "time_pattern_search s = None"

section \<open>The parsed document\<close>

text \<open>
  What \<open>BeautifulSoup(html, 'html.parser')\<close> hands to the scrapers: a tree of text nodes
  and tags. A tag has a name, the token list of its \<open>class\<close> attribute (\<open>None\<close> when it
  has none), its other attributes and its children. Comments and the other strings that
  \<open>get_text\<close> passes over are left out of the tree; the root is the document itself.
\<close>

datatype node =
  Text string
| Elem string "string list option" "(string \<times> string) list" "node list"

fun descendants :: "node \<Rightarrow> node list" where
  "descendants (Text s) = []"
| "descendants (Elem tg cls attrs kids) = concat (map (\<lambda>k. k # descendants k) kids)"

fun get_text :: "node \<Rightarrow> string" where
  "get_text (Text s) = s"
| "get_text (Elem tg cls attrs kids) = concat (map get_text kids)"

fun is_tag :: "string \<Rightarrow> node \<Rightarrow> bool" where
  "is_tag tg (Text s) = False"
| "is_tag tg (Elem tg' cls attrs kids) = (tg' = tg)"

text \<open>\<open>tag.get('class')\<close> and \<open>tag.get(key)\<close> for the other attributes.\<close>

fun get_class :: "node \<Rightarrow> string list option" where
  "get_class (Text s) = None"
| "get_class (Elem tg cls attrs kids) = cls"

fun get_attr :: "node \<Rightarrow> string \<Rightarrow> string option" where
  "get_attr (Text s) key = None"
| "get_attr (Elem tg cls attrs kids) key = map_of attrs key"

definition has_class :: "string \<Rightarrow> node \<Rightarrow> bool" where
  "has_class tok nd = (case get_class nd of None \<Rightarrow> False | Some toks \<Rightarrow> tok \<in> set toks)"

text \<open>\<open>tag.find_all(name)\<close> and \<open>tag.find(name)\<close>: the descendants in document order.\<close>

definition find_all :: "string \<Rightarrow> node \<Rightarrow> node list" where
  "find_all tg nd = filter (is_tag tg) (descendants nd)"

definition find_first :: "string \<Rightarrow> node \<Rightarrow> node option" where
  "find_first tg nd = (case find_all tg nd of [] \<Rightarrow> None | x # xs \<Rightarrow> Some x)"

text \<open>\<open>tag.find_all(name, class_=tok)\<close> and \<open>tag.find(name, class_=tok)\<close>.\<close>

definition find_all_class :: "string \<Rightarrow> string \<Rightarrow> node \<Rightarrow> node list" where
  "find_all_class tg tok nd = filter (has_class tok) (find_all tg nd)"

definition find_first_class :: "string \<Rightarrow> string \<Rightarrow> node \<Rightarrow> node option" where
  "find_first_class tg tok nd =
     (case find_all_class tg tok nd of [] \<Rightarrow> None | x # xs \<Rightarrow> Some x)"

section \<open>Events and channels\<close>

text \<open>
  The dictionaries the scrapers build have fixed keys. The \<open>url\<close> of a channel is
  \<open>None\<close> where Python holds \<open>None\<close>.
\<close>

record channel =
  name :: string
  url :: "string option"

record event =
  country_league :: string
  title :: string
  time :: string
  channels :: "channel list"

section \<open>DaddyLiveScraper\<close>

text \<open>The body of the loop over the links of one \<open>strong\<close> (lines 178 to 183).\<close>

definition link_channel :: "node \<Rightarrow> channel" where
  "link_channel link = \<lparr>name = get_text link, url = get_attr link ''href''\<rparr>"

text \<open>
  One pass of the loop over the \<open>strong\<close> tags (lines 160 to 199). The state is the pair
  of \<open>events\<close> and \<open>channels\<close>, both declared before the loop.
\<close>

definition strong_step ::
  "node \<Rightarrow> event list \<times> channel list \<Rightarrow> error + (event list \<times> channel list)" where
  "strong_step strong st =
     (case st of (events, chans) \<Rightarrow>
        let texto_completo = get_text strong in
        (case time_pattern_search texto_completo of
           None \<Rightarrow> Inr (events, chans)
         | Some hora \<Rightarrow>
             (case index texto_completo hora of
                Inl e \<Rightarrow> Inl e
              | Inr i \<Rightarrow>
                  let titulo_inicio = int i + int (length hora);
                      links = find_all ''a'' strong;
                      canales = map get_text links;
                      chans' = chans @ map link_channel links
                  in (case (case canales of
                              [] \<Rightarrow> Inr (int (length texto_completo))
                            | c # cs \<Rightarrow>
                                (case index texto_completo c of
                                   Inl e \<Rightarrow> Inl e
                                 | Inr j \<Rightarrow> Inr (int j - 1))) of
                        Inl e \<Rightarrow> Inl e
                      | Inr titulo_fin \<Rightarrow>
                          Inr (events @
                                 [\<lparr>country_league = '''',
                                   title = strip (slice texto_completo titulo_inicio titulo_fin),
                                   time = hora,
                                   channels = chans'\<rparr>],
                               [])))))"

fun scrape_strongs :: "node list \<Rightarrow> event list \<times> channel list \<Rightarrow> error + event list" where
  "scrape_strongs [] st = Inr (fst st)"
| "scrape_strongs (s # ss) st =
     (case strong_step s st of Inl e \<Rightarrow> Inl e | Inr st' \<Rightarrow> scrape_strongs ss st')"

text \<open>\<open>DaddyLiveScraper.scrape\<close>; \<open>self.soup\<close> is \<open>None\<close> until a load has succeeded.\<close>

definition DaddyLiveScraper_scrape :: "node option \<Rightarrow> error + event list" where
  "DaddyLiveScraper_scrape soup =
     (case soup of
        None \<Rightarrow> Inr []
      | Some doc \<Rightarrow> scrape_strongs (find_all ''strong'' doc) ([], []))"

text \<open>
  The event that one pass of the loop adds when it starts from empty \<open>events\<close> and
  \<open>channels\<close>: none for a block without a time.
\<close>

definition strong_event :: "node \<Rightarrow> event option" where
  "strong_event s =
     (case strong_step s ([], []) of
        Inl e \<Rightarrow> None
      | Inr st \<Rightarrow> (case fst st of [] \<Rightarrow> None | e # es \<Rightarrow> Some e))"

section \<open>RojadirectaScraper\<close>

text \<open>
  \<open>self.soup.select("ul.menu > li")\<close>: the \<open>li\<close> tags whose parent is a \<open>ul\<close> with the
  class \<open>menu\<close>, in document order. \<open>child_pairs\<close> lists every node below the root with
  its parent.
\<close>

fun child_pairs :: "node \<Rightarrow> (node \<times> node) list" where
  "child_pairs (Text s) = []"
| "child_pairs (Elem tg cls attrs kids) =
     concat (map (\<lambda>k. (Elem tg cls attrs kids, k) # child_pairs k) kids)"

definition select_menu_items :: "node \<Rightarrow> node list" where
  "select_menu_items soup =
     map snd (filter (\<lambda>pc. is_tag ''ul'' (fst pc) \<and> has_class ''menu'' (fst pc) \<and> is_tag ''li'' (snd pc))
                (child_pairs soup))"

text \<open>
  The regular expression of line 100, \<^verbatim>\<open>(.+?)(?:<span class="t">(\d+:\d+)</span>)\<close>.
  \<open>time_span_prefix\<close> matches its second part at the head of a string and gives group 2:
  each \<open>\d+\<close> takes every digit there is, because the character that must follow is not
  a digit.
\<close>

definition time_digits :: "string \<Rightarrow> string option" where
  "time_digits r =
     (let hh = takeWhile isdigit r
      in (case dropWhile isdigit r of
            [] \<Rightarrow> None
          | c # r2 \<Rightarrow>
              (let mm = takeWhile isdigit r2
               in if hh \<noteq> [] \<and> c = CHR '':'' \<and> mm \<noteq> [] \<and>
                     prefix ''</span>'' (dropWhile isdigit r2)
                  then Some (hh @ c # mm) else None)))"

definition time_span_prefix :: "string \<Rightarrow> string option" where
  \<open>time_span_prefix s =
     (if prefix ''<span class="t">'' s
      then time_digits (drop (length ''<span class="t">'') s)
      else None)\<close>

text \<open>
  Group 1, \<open>(.+?)\<close>, from a fixed start: the shortest run of one or more characters
  other than the line feed after which the second part matches. \<open>g\<close> is the run so far.
\<close>

fun lazy_group :: "string \<Rightarrow> string \<Rightarrow> (string \<times> string) option" where
  "lazy_group g [] = None"
| "lazy_group g (c # cs) =
     (if c = CHR 0x0A then None
      else (case time_span_prefix cs of
              Some t \<Rightarrow> Some (g @ [c], t)
            | None \<Rightarrow> lazy_group (g @ [c]) cs))"

text \<open>\<open>re.search\<close>: the leftmost start that matches; the result is (group 1, group 2).\<close>

fun title_time_search :: "string \<Rightarrow> (string \<times> string) option" where
  "title_time_search [] = None"
| "title_time_search (c # cs) =
     (case lazy_group [] (c # cs) of
        Some r \<Rightarrow> Some r
      | None \<Rightarrow> title_time_search cs)"

text \<open>The channel of one \<open>li.subitem1\<close> (lines 120 to 127): none when it has no link.\<close>

definition subitem_channel :: "node \<Rightarrow> channel list" where
  "subitem_channel chan =
     (case find_first ''a'' chan of
        None \<Rightarrow> []
      | Some channel_link \<Rightarrow>
          [\<lparr>name = strip (get_text channel_link),
            url = Some (case get_attr channel_link ''href'' of None \<Rightarrow> '''' | Some u \<Rightarrow> u)\<rparr>])"

text \<open>The string that line 112 removes from the title.\<close>

definition placeholder_anchor :: string where
  \<open>placeholder_anchor = ''<a href="#">''\<close>

text \<open>
  The body of the loop over the menu items (lines 88 to 137); \<open>None\<close> is the
  \<open>continue\<close> of line 95. \<open>markup\<close> is \<open>str(tag)\<close>, the serialiser of BeautifulSoup,
  a parameter of the model.
\<close>

definition item_event :: "(node \<Rightarrow> string) \<Rightarrow> node \<Rightarrow> event option" where
  \<open>item_event markup item =
     (let country_class = (case get_class item of
                             None \<Rightarrow> ''''
                           | Some [] \<Rightarrow> ''''
                           | Some (c # cs) \<Rightarrow> c)
      in (case find_first ''a'' item of
            None \<Rightarrow> None
          | Some event_link \<Rightarrow>
              (let event_title = strip (get_text event_link);
                   tt = (case title_time_search (markup event_link) of
                           Some (g1, g2) \<Rightarrow> (strip g1, g2)
                         | None \<Rightarrow>
                             (let event_time =
                                    (case find_first_class ''span'' ''t'' event_link of
                                       Some time_span \<Rightarrow> get_text time_span
                                     | None \<Rightarrow> ''No especificado'')
                              in (strip (replace_empty event_title event_time), event_time)));
                   chans = (case find_first ''ul'' item of
                              None \<Rightarrow> []
                            | Some channel_items \<Rightarrow>
                                concat (map subitem_channel
                                          (find_all_class ''li'' ''subitem1'' channel_items)))
               in Some \<lparr>country_league = country_class,
                         title = replace_empty (fst tt) placeholder_anchor,
                         time = snd tt,
                         channels = chans\<rparr>)))\<close>

fun scrape_items :: "(node \<Rightarrow> string) \<Rightarrow> node list \<Rightarrow> event list \<Rightarrow> event list" where
  "scrape_items markup [] events = events"
| "scrape_items markup (item # items) events =
     (case item_event markup item of
        None \<Rightarrow> scrape_items markup items events
      | Some event_info \<Rightarrow> scrape_items markup items (events @ [event_info]))"

definition RojadirectaScraper_scrape :: "(node \<Rightarrow> string) \<Rightarrow> node option \<Rightarrow> error + event list" where
  "RojadirectaScraper_scrape markup soup =
     (case soup of
        None \<Rightarrow> Inr []
      | Some doc \<Rightarrow> Inr (scrape_items markup (select_menu_items doc) []))"

section \<open>ScraperManager\<close>

text \<open>
  A Python \<open>dict\<close> keeps its keys in the order of their first insertion: an association
  list with distinct keys. \<open>dict_set d k v\<close> is \<open>d[k] = v\<close>: the value of a key already
  there is replaced where it stands, a new key goes to the end. \<open>dict_update d other\<close>
  is \<open>d.update(other)\<close>.
\<close>

fun dict_set :: "('k \<times> 'v) list \<Rightarrow> 'k \<Rightarrow> 'v \<Rightarrow> ('k \<times> 'v) list" where
  "dict_set [] k v = [(k, v)]"
| "dict_set ((k', v') # d) k v =
     (if k' = k then (k, v) # d else (k', v') # dict_set d k v)"


text \<open>The scraper classes that can be registered, and the call of their \<open>scrape\<close>.\<close>

datatype scraper_class = RojadirectaScraper | DaddyLiveScraper


record manager =
  scraper_map :: "(string \<times> scraper_class) list"
  results :: "(string \<times> event list) list"

definition init_manager :: manager where
  "init_manager = \<lparr>scraper_map = [], results = []\<rparr>"

definition register_scraper :: "manager \<Rightarrow> string \<Rightarrow> scraper_class \<Rightarrow> manager" where
  "register_scraper m url_pattern cls =
     m\<lparr>scraper_map := dict_set (scraper_map m) url_pattern cls\<rparr>"






text \<open>
  The manager after \<open>__init__\<close> and the \<open>register_scraper\<close> calls \<open>regs\<close>, in
  that order.
\<close>

definition registered :: "(string \<times> scraper_class) list \<Rightarrow> manager" where
  "registered regs = foldl (\<lambda>m pc. register_scraper m (fst pc) (snd pc)) init_manager regs"



section \<open>The playlist exporter\<close>

text \<open>
  \<open>export_to_m3u\<close> reads the events as dictionaries: it tests for a key and copies the
  items it finds. \<open>pyval\<close> holds the values of such a dictionary; \<open>event_dict\<close> is the
  dictionary literal of lines 130 to 135 and 191 to 196.
\<close>

datatype pyval =
  PNone
| PStr string
| PList "pyval list"
| PDict "(string \<times> pyval) list"

definition channel_dict :: "channel \<Rightarrow> pyval" where
  "channel_dict c =
     PDict [(''name'', PStr (name c)),
            (''url'', (case url c of None \<Rightarrow> PNone | Some u \<Rightarrow> PStr u))]"

definition event_dict :: "event \<Rightarrow> (string \<times> pyval) list" where
  "event_dict e =
     [(''country_league'', PStr (country_league e)),
      (''title'', PStr (title e)),
      (''time'', PStr (time e)),
      (''channels'', PList (map channel_dict (channels e)))]"

text \<open>\<open>for x in v\<close>: the values a loop over \<open>v\<close> visits, \<open>TypeError\<close> for \<open>None\<close>.\<close>

fun py_iter :: "pyval \<Rightarrow> error + pyval list" where
  "py_iter PNone = Inl TypeError"
| "py_iter (PStr s) = Inr (map (\<lambda>c. PStr [c]) s)"
| "py_iter (PList xs) = Inr xs"
| "py_iter (PDict d) = Inr (map (\<lambda>kv. PStr (fst kv)) d)"

text \<open>\<open>v.get(key, default)\<close>: only a dictionary has the method.\<close>

fun py_get :: "pyval \<Rightarrow> string \<Rightarrow> pyval \<Rightarrow> error + pyval" where
  "py_get (PDict d) key dflt = Inr (case map_of d key of None \<Rightarrow> dflt | Some v \<Rightarrow> v)"
| "py_get v key dflt = Inl AttributeError"

text \<open>The row of one channel (lines 295 to 306).\<close>

definition channel_row ::
  "string \<Rightarrow> string \<Rightarrow> (string \<times> pyval) list \<Rightarrow> pyval \<Rightarrow> error + (string \<times> pyval) list" where
  "channel_row domain u ev chan =
     (let row = foldl (\<lambda>r kv. if fst kv \<noteq> ''channels'' then dict_set r (fst kv) (snd kv) else r)
                  [(''source'', PStr domain), (''url'', PStr u)] ev
      in (case py_get chan ''name'' (PStr '''') of
            Inl e \<Rightarrow> Inl e
          | Inr n \<Rightarrow>
              (case py_get chan ''url'' (PStr '''') of
                 Inl e \<Rightarrow> Inl e
               | Inr cu \<Rightarrow> Inr (dict_set (dict_set row ''channel_name'' n) ''channel_url'' cu))))"

fun channel_rows ::
  "string \<Rightarrow> string \<Rightarrow> (string \<times> pyval) list \<Rightarrow> pyval list \<Rightarrow>
   error + (string \<times> pyval) list list" where
  "channel_rows domain u ev [] = Inr []"
| "channel_rows domain u ev (chan # chans) =
     (case channel_row domain u ev chan of
        Inl e \<Rightarrow> Inl e
      | Inr row \<Rightarrow>
          (case channel_rows domain u ev chans of
             Inl e \<Rightarrow> Inl e
           | Inr rows \<Rightarrow> Inr (row # rows)))"

text \<open>
  The rows of one event (lines 293 to 319): one for each channel when the event has the
  key \<open>channels\<close>, one row for the event when it has not.
\<close>

definition event_rows ::
  "string \<Rightarrow> string \<Rightarrow> (string \<times> pyval) list \<Rightarrow> error + (string \<times> pyval) list list" where
  "event_rows domain u ev =
     (if ''channels'' \<in> set (map fst ev) then
        (case py_iter (case map_of ev ''channels'' of None \<Rightarrow> PList [] | Some v \<Rightarrow> v) of
           Inl e \<Rightarrow> Inl e
         | Inr chans \<Rightarrow> channel_rows domain u ev chans)
      else
        Inr [foldl (\<lambda>r kv. dict_set r (fst kv) (snd kv))
               [(''source'', PStr domain), (''url'', PStr u)] ev])"

text \<open>The two loops of lines 287 and 288; \<open>all_rows\<close> is what they leave in \<open>all_rows\<close>.\<close>

fun events_rows ::
  "string \<Rightarrow> string \<Rightarrow> (string \<times> pyval) list list \<Rightarrow> error + (string \<times> pyval) list list" where
  "events_rows domain u [] = Inr []"
| "events_rows domain u (ev # evs) =
     (case event_rows domain u ev of
        Inl e \<Rightarrow> Inl e
      | Inr rows \<Rightarrow>
          (case events_rows domain u evs of
             Inl e \<Rightarrow> Inl e
           | Inr rest \<Rightarrow> Inr (rows @ rest)))"

fun all_rows ::
  "(string \<Rightarrow> string) \<Rightarrow> (string \<times> event list) list \<Rightarrow> error + (string \<times> pyval) list list" where
  "all_rows netloc [] = Inr []"
| "all_rows netloc ((u, events) # rest) =
     (case events_rows (netloc u) u (map event_dict events) of
        Inl e \<Rightarrow> Inl e
      | Inr rows \<Rightarrow>
          (case all_rows netloc rest of
             Inl e \<Rightarrow> Inl e
           | Inr others \<Rightarrow> Inr (rows @ others)))"

text \<open>
  \<open>export_to_m3u\<close>: the rows it writes, two lines of the file for each; \<open>None\<close> when
  there is no row and nothing is written.
\<close>

definition export_to_m3u ::
  "(string \<Rightarrow> string) \<Rightarrow> manager \<Rightarrow> error + (string \<times> pyval) list list option" where
  "export_to_m3u netloc m =
     (case all_rows netloc (results m) of
        Inl e \<Rightarrow> Inl e
      | Inr rows \<Rightarrow> Inr (if rows \<noteq> [] then Some rows else None))"

section \<open>The forms of a time\<close>



section \<open>Sample inputs\<close>






text \<open>
  The network location of a URL of the form \<open>scheme://netloc/path\<close>, which is what
  \<open>urlparse\<close> gives for the sample URLs below.
\<close>

fun after_slashes :: "string \<Rightarrow> string" where
  "after_slashes (a # b # r) =
     (if a = CHR ''/'' \<and> b = CHR ''/'' then r else after_slashes (b # r))"
| "after_slashes s = []"

definition sample_netloc :: "string \<Rightarrow> string" where
  "sample_netloc u = takeWhile (\<lambda>c. c \<notin> set ''/?#'') (after_slashes u)"






definition daddylive_manager :: manager where
  "daddylive_manager = registered [(''daddylive'', DaddyLiveScraper)]"

text \<open>
  A DaddyLive page whose only block has a time and no link,
  \<^verbatim>\<open><strong>21:00 Final</strong>\<close>, and the event it holds.
\<close>

definition final_page :: node where
  "final_page =
     Elem ''[document]'' None [] [Elem ''strong'' None [] [Text ''21:00 Final'']]"

definition final_event :: event where
  "final_event = \<lparr>country_league = '''', title = ''Final'', time = ''21:00'', channels = []\<rparr>"

text \<open>
  A DaddyLive page whose link has no \<open>href\<close> and a text with spaces around it,
  \<^verbatim>\<open><strong>20:00 Match <a> Canal1 </a></strong>\<close>.
\<close>

definition bare_link_page :: node where
  "bare_link_page =
     Elem ''[document]'' None []
       [Elem ''strong'' None [] [Text ''20:00 Match '', Elem ''a'' None [] [Text '' Canal1 '']]]"







section \<open>Facts\<close>

subsection \<open>Finding a substring\<close>

lemma find_from_None: "find_from sub s i = None \<longleftrightarrow> \<not> sublist sub s"
  by (induction s arbitrary: i) (auto simp: sublist_Cons_right)

lemma find_from_Some:
  "find_from sub s i = Some j \<Longrightarrow> i \<le> j \<and> j - i \<le> length s \<and> prefix sub (drop (j - i) s)"
proof (induction s arbitrary: i)
  case Nil
  then show ?case by (auto split: if_splits)
next
  case (Cons c cs)
  show ?case
  proof (cases "prefix sub (c # cs)")
    case True
    with Cons.prems show ?thesis by simp
  next
    case False
    with Cons.prems have "find_from sub cs (Suc i) = Some j" by simp
    from Cons.IH[OF this] have "Suc i \<le> j" "j - Suc i \<le> length cs" "prefix sub (drop (j - Suc i) cs)"
      by auto
    then show ?thesis by (auto simp: Suc_diff_le drop_Cons')
  qed
qed


lemma index_sublist: "sublist sub s \<Longrightarrow> \<exists>j. index s sub = Inr j"
  using find_from_None[of sub s 0] by (auto simp: index_def split: option.splits)

lemma time_pattern_search_Some:
  "time_pattern_search s = Some h \<Longrightarrow>
     sublist h s \<and> (\<exists>a b d e. h = [a, b, CHR '':'', d, e] \<and> isdigit a \<and> isdigit b \<and> isdigit d \<and> isdigit e)"
proof (induction s rule: time_pattern_search.induct)
  case (1 a b c d e rest)
  show ?case
  proof (cases "isdigit a \<and> isdigit b \<and> c = CHR '':'' \<and> isdigit d \<and> isdigit e")
    case True
    with 1 have "h = [a, b, c, d, e]" by simp
    with True show ?thesis by (auto simp: sublist_Cons_right)
  next
    case False
    with 1 have "time_pattern_search (b # c # d # e # rest) = Some h" by auto
    with 1 False show ?thesis by (auto simp: sublist_Cons_right)
  qed
qed simp_all

subsection \<open>The text of a descendant\<close>

lemma get_text_descendant:
  "d \<in> set (descendants nd) \<Longrightarrow> sublist (get_text d) (get_text nd)"
proof (induction nd arbitrary: d)
  case (Text s)
  then show ?case by simp
next
  case (Elem tg cls attrs kids)
  from Elem.prems obtain k where k: "k \<in> set kids" "d = k \<or> d \<in> set (descendants k)"
    by auto
  from k(1) obtain ps ss where "kids = ps @ k # ss" by (auto simp: in_set_conv_decomp)
  then have a: "sublist (get_text k) (get_text (Elem tg cls attrs kids))"
    by (auto simp: sublist_def)
  from k Elem.IH[of k d] have "sublist (get_text d) (get_text k)" by auto
  with a show ?case using sublist_order.order_trans by blast
qed

lemma find_all_descendant: "l \<in> set (find_all tg nd) \<Longrightarrow> l \<in> set (descendants nd)"
  by (simp add: find_all_def)

subsection \<open>The loop of DaddyLiveScraper\<close>

lemma strong_step_None:
  "time_pattern_search (get_text s) = None \<Longrightarrow> strong_step s (evs, chs) = Inr (evs, chs)"
  by (simp add: strong_step_def)

lemma strong_step_Some:
  assumes "time_pattern_search (get_text s) = Some h"
  shows "\<exists>t. strong_step s (evs, chs) =
           Inr (evs @ [\<lparr>country_league = [], title = t, time = h,
                          channels = chs @ map link_channel (find_all ''a'' s)\<rparr>], [])"
proof -
  from time_pattern_search_Some[OF assms] have "sublist h (get_text s)" by simp
  from index_sublist[OF this] obtain i where i: "index (get_text s) h = Inr i" by blast
  show ?thesis
  proof (cases "find_all ''a'' s")
    case Nil
    with assms i show ?thesis by (simp add: strong_step_def Let_def)
  next
    case (Cons l ls)
    then have "l \<in> set (descendants s)" using find_all_descendant[of l "''a''" s] by simp
    from index_sublist[OF get_text_descendant[OF this]]
    obtain j where j: "index (get_text s) (get_text l) = Inr j" by blast
    with assms i Cons show ?thesis by (simp add: strong_step_def Let_def)
  qed
qed


lemma strong_event_None:
  "strong_event s = None \<longleftrightarrow> time_pattern_search (get_text s) = None"
proof (cases "time_pattern_search (get_text s)")
  case None
  then show ?thesis by (simp add: strong_event_def strong_step_None)
next
  case (Some h)
  from strong_step_Some[OF Some, of "[]" "[]"] Some show ?thesis
    by (auto simp: strong_event_def)
qed

lemma strong_event_Some:
  assumes "strong_event s = Some e"
  shows "time_pattern_search (get_text s) = Some (time e)"
    and "channels e = map link_channel (find_all ''a'' s)"
    and "country_league e = []"
proof -
  from assms strong_event_None[of s] obtain h where h: "time_pattern_search (get_text s) = Some h"
    by (cases "time_pattern_search (get_text s)") auto
  from strong_step_Some[OF h, of "[]" "[]"] assms
  have "time e = h \<and> channels e = map link_channel (find_all ''a'' s) \<and> country_league e = []"
    by (auto simp: strong_event_def)
  with h show "time_pattern_search (get_text s) = Some (time e)"
    and "channels e = map link_channel (find_all ''a'' s)"
    and "country_league e = []" by simp_all
qed

lemma strong_step_event:
  "strong_step s (evs, []) =
     Inr (case strong_event s of None \<Rightarrow> (evs, []) | Some e \<Rightarrow> (evs @ [e], []))"
proof (cases "time_pattern_search (get_text s)")
  case None
  then show ?thesis using strong_event_None[of s] by (simp add: strong_step_None)
next
  case (Some h)
  from strong_step_Some[OF Some, of "[]" "[]"] obtain t where
    t: "strong_step s ([], []) = Inr ([\<lparr>country_league = [], title = t, time = h,
          channels = map link_channel (find_all ''a'' s)\<rparr>], [])" by auto
  from strong_step_Some[OF Some, of evs "[]"] obtain t' where
    t': "strong_step s (evs, []) = Inr (evs @ [\<lparr>country_league = [], title = t', time = h,
          channels = map link_channel (find_all ''a'' s)\<rparr>], [])" by auto
  have "t' = t" using t t' Some by (auto simp: strong_step_def Let_def split: sum.splits list.splits)
  with t t' show ?thesis by (simp add: strong_event_def)
qed

lemma scrape_strongs_eq:
  "scrape_strongs ss (evs, []) = Inr (evs @ List.map_filter strong_event ss)"
proof (induction ss arbitrary: evs)
  case Nil
  then show ?case by simp
next
  case (Cons s ss)
  show ?case
  proof (cases "strong_event s")
    case None
    with Cons[of evs] show ?thesis by (simp add: strong_step_event)
  next
    case (Some e)
    with Cons[of "evs @ [e]"] show ?thesis by (simp add: strong_step_event)
  qed
qed

lemma DaddyLiveScraper_scrape_eq:
  "DaddyLiveScraper_scrape (Some doc) = Inr (List.map_filter strong_event (find_all ''strong'' doc))"
  using scrape_strongs_eq[of _ "[]"] by (simp add: DaddyLiveScraper_scrape_def)

lemma map_filter_channels:
  "map channels (List.map_filter strong_event ss) =
     map (\<lambda>s. map link_channel (find_all ''a'' s))
       (filter (\<lambda>s. time_pattern_search (get_text s) \<noteq> None) ss)"
proof (induction ss)
  case Nil
  then show ?case by simp
next
  case (Cons s ss)
  show ?case
  proof (cases "strong_event s")
    case None
    with Cons strong_event_None[of s] show ?thesis by simp
  next
    case (Some e)
    with strong_event_None[of s] have "time_pattern_search (get_text s) \<noteq> None" by simp
    with Cons Some strong_event_Some(2)[OF Some] show ?thesis
      by simp
  qed
qed

text \<open>
  Claim C3. \<open>DaddyLiveScraper.scrape\<close> returns, and the channel lists of its events
  are, block by block and in document order, the links of the \<open>strong\<close> tags that
  hold a time: each event carries the links of its own block and no others, so nothing
  accumulated for one block reaches the event of a later one.
\<close>

theorem daddylive_channels_of_own_block:
  "\<exists>evs. DaddyLiveScraper_scrape (Some doc) = Inr evs \<and>
     map channels evs =
       map (\<lambda>s. map link_channel (find_all ''a'' s))
         (filter (\<lambda>s. time_pattern_search (get_text s) \<noteq> None) (find_all ''strong'' doc))"
  by (simp add: DaddyLiveScraper_scrape_eq map_filter_channels)

subsection \<open>Dictionaries and the registry\<close>

lemma map_fst_dict_set:
  "map fst (dict_set d k v) = (if k \<in> set (map fst d) then map fst d else map fst d @ [k])"
proof (induction d)
  case Nil
  then show ?case by simp
next
  case (Cons kv d)
  obtain k' v' where kv: "kv = (k', v')" by (cases kv)
  show ?case
  proof (cases "k' = k")
    case True
    then show ?thesis by (simp add: kv)
  next
    case False
    with Cons show ?thesis by (simp add: kv)
  qed
qed


lemma distinct_dict_set: "distinct (map fst d) \<Longrightarrow> distinct (map fst (dict_set d k v))"
  by (simp add: map_fst_dict_set)








subsection \<open>Both scrapers return\<close>

lemma scrape_items_eq:
  "scrape_items markup items evs = evs @ List.map_filter (item_event markup) items"
  by (induction items arbitrary: evs) (auto split: option.splits)

lemma RojadirectaScraper_scrape_eq:
  "RojadirectaScraper_scrape markup (Some doc) =
     Inr (List.map_filter (item_event markup) (select_menu_items doc))"
  by (simp add: RojadirectaScraper_scrape_def scrape_items_eq)

lemma item_event_None: "item_event markup item = None \<longleftrightarrow> find_first ''a'' item = None"
  by (simp add: item_event_def Let_def split: option.splits)

text \<open>
  Claim C8. Both \<open>scrape\<close> methods return a list and raise nothing, whatever the
  document: the empty list when no document is loaded, and otherwise the events of the
  nodes taken one by one in document order, where a node gives one event or none. A menu
  item gives none exactly when it has no link, a \<open>strong\<close> block exactly when it has
  no time; the nodes after it are still processed.
\<close>

theorem scrape_returns_normally:
  "RojadirectaScraper_scrape markup None = Inr [] \<and>
   DaddyLiveScraper_scrape None = Inr [] \<and>
   RojadirectaScraper_scrape markup (Some doc) =
     Inr (List.map_filter (item_event markup) (select_menu_items doc)) \<and>
   DaddyLiveScraper_scrape (Some doc) =
     Inr (List.map_filter strong_event (find_all ''strong'' doc)) \<and>
   (item_event markup item = None \<longleftrightarrow> find_first ''a'' item = None) \<and>
   (strong_event s = None \<longleftrightarrow> time_pattern_search (get_text s) = None)"
proof -
  have "RojadirectaScraper_scrape markup None = Inr []"
    by (simp add: RojadirectaScraper_scrape_def)
  moreover have "DaddyLiveScraper_scrape None = Inr []"
    by (simp add: DaddyLiveScraper_scrape_def)
  ultimately show ?thesis
    using item_event_None[of markup item] strong_event_None[of s]
      RojadirectaScraper_scrape_eq[of markup doc] DaddyLiveScraper_scrape_eq[of doc]
    by simp
qed

subsection \<open>One URL\<close>






subsection \<open>Several URLs\<close>












subsection \<open>Rows of the playlist\<close>

lemma channel_rows_dicts:
  "\<exists>rows. channel_rows domain u ev (map channel_dict cs) = Inr rows \<and> length rows = length cs"
proof (induction cs)
  case Nil
  then show ?case by simp
next
  case (Cons c cs)
  then obtain rows where r: "channel_rows domain u ev (map channel_dict cs) = Inr rows"
    "length rows = length cs" by blast
  obtain row where "channel_row domain u ev (channel_dict c) = Inr row"
    by (simp add: channel_row_def channel_dict_def Let_def)
  with r show ?case by simp
qed

lemma event_rows_event_dict:
  "\<exists>rows. event_rows domain u (event_dict e) = Inr rows \<and> length rows = length (channels e)"
proof -
  have "event_rows domain u (event_dict e) =
          channel_rows domain u (event_dict e) (map channel_dict (channels e))"
    by (simp add: event_rows_def event_dict_def)
  with channel_rows_dicts[of domain u "event_dict e" "channels e"] show ?thesis by simp
qed

lemma events_rows_count:
  "\<exists>rows. events_rows domain u (map event_dict es) = Inr rows \<and>
     length rows = sum_list (map (\<lambda>e. length (channels e)) es)"
proof (induction es)
  case Nil
  then show ?case by simp
next
  case (Cons e es)
  then obtain rest where r: "events_rows domain u (map event_dict es) = Inr rest"
    "length rest = sum_list (map (\<lambda>e. length (channels e)) es)" by blast
  from event_rows_event_dict[of domain u e] obtain rows where
    "event_rows domain u (event_dict e) = Inr rows" "length rows = length (channels e)" by blast
  with r show ?case by simp
qed

lemma all_rows_count:
  "\<exists>rows. all_rows netloc res = Inr rows \<and>
     length rows = sum_list (map (\<lambda>e. length (channels e)) (concat (map snd res)))"
proof (induction res)
  case Nil
  then show ?case by simp
next
  case (Cons ue res)
  obtain u es where ue: "ue = (u, es)" by (cases ue)
  from Cons obtain others where r: "all_rows netloc res = Inr others"
    "length others = sum_list (map (\<lambda>e. length (channels e)) (concat (map snd res)))" by blast
  from events_rows_count[of "netloc u" u es] obtain rows where
    "events_rows (netloc u) u (map event_dict es) = Inr rows"
    "length rows = sum_list (map (\<lambda>e. length (channels e)) es)" by blast
  with r show ?case by (simp add: ue)
qed

lemma final_page_events: "DaddyLiveScraper_scrape (Some final_page) = Inr [final_event]"
  by code_simp

text \<open>
  Claim C1, at an event with no channel. The block \<open>final_page\<close> has a time and no link;
  its event has the key \<open>channels\<close> with an empty list, so the exporter takes the branch
  of line 293, loops over no channel and writes no row for it, where the claim asks for
  one row with empty channel fields. By \<open>all_rows_count\<close> the exporter writes, for
  scraped events, as many rows as there are channels.
\<close>

theorem export_event_without_channels:
  "DaddyLiveScraper_scrape (Some final_page) = Inr [final_event] \<and>
   channels final_event = [] \<and>
   all_rows sample_netloc [(''http://daddylive.test/a'', [final_event])] = Inr [] \<and>
   export_to_m3u sample_netloc
     (daddylive_manager\<lparr>results := [(''http://daddylive.test/a'', [final_event])]\<rparr>) = Inr None"
  by code_simp

subsection \<open>Channels\<close>

lemma subitem_channel_trimmed:
  "c \<in> set (subitem_channel chan) \<Longrightarrow>
     \<exists>link. find_first ''a'' chan = Some link \<and> name c = strip (get_text link) \<and>
       url c = Some (case get_attr link ''href'' of None \<Rightarrow> [] | Some h \<Rightarrow> h)"
  by (cases "find_first ''a'' chan") (simp_all add: subitem_channel_def)

text \<open>
  Claim C6, at a DaddyLive link with no \<open>href\<close> and spaces around its text: the channel
  keeps the spaces in its \<open>name\<close>, and its \<open>url\<close> is \<open>None\<close>, not the empty string.
  The channels of RojadirectaScraper are trimmed and default to the empty string
  (\<open>subitem_channel_trimmed\<close>).
\<close>

theorem daddylive_channel_untrimmed_without_url:
  "DaddyLiveScraper_scrape (Some bare_link_page) =
     Inr [\<lparr>country_league = '''', title = ''Match'', time = ''20:00'',
           channels = [\<lparr>name = '' Canal1 '', url = None\<rparr>]\<rparr>]"
  by code_simp

subsection \<open>Times\<close>

















subsection \<open>Titles\<close>













end
